theory Spec2Isabelle
  imports Main "HOL-Library.Word"
begin

section \<open>The libcw generator demo: \<open>unixcw_libcw_demo.c\<close>\<close>

subsection \<open>The library interface the demo is compiled against\<close>

text \<open>
  \<open>unixcw_libcw_demo_1\<close> is written against libcw (\<open>libcw2.h\<close>, \<open>libcw_debug.h\<close>), a
  third-party library whose headers and code are not part of the repository. Everything the
  function takes from it is therefore a parameter of the model, collected in the record
  \<open>libcw\<close>: the constants it names, the size of the \<open>sound_device\<close> array, and the answer
  of each library function during one invocation of the demo. The function has no loop and
  calls each library function at most once on a handle, so an answer that depends on the
  arguments alone describes any behaviour of the library in one invocation; a statement
  for every \<open>L\<close> is a statement for every combination of outcomes. The generator calls
  are taken not to write the two debug objects.

  A generator handle (\<open>cw_gen_t *\<close>) is an address; \<open>cw_gen_new\<close> answers \<open>None\<close> for the
  \<open>NULL\<close> pointer. A \<open>cw_ret_t\<close> and an \<open>enum cw_return_values\<close> are C integers.
\<close>

type_synonym cw_gen_t = nat
type_synonym cw_ret_t = int

record cw_debug_t =
  flags :: nat
  level :: int

record cw_gen_config_t =
  sound_system :: int
  sound_device :: string

record libcw =
  CW_SUCCESS :: int
  CW_FAILURE :: int
  CW_DEBUG_MASK :: nat
  CW_DEBUG_DEBUG :: int
  CW_DEBUG_INFO :: int
  CW_AUDIO_NULL :: int
  CW_DEFAULT_NULL_DEVICE :: string
  sizeof_sound_device :: nat
  cw_debug_set_flags :: "cw_debug_t \<Rightarrow> nat \<Rightarrow> cw_debug_t"
  cw_gen_new :: "cw_gen_config_t \<Rightarrow> cw_gen_t option"
  cw_gen_start :: "cw_gen_t \<Rightarrow> cw_ret_t"
  cw_gen_enqueue_string :: "cw_gen_t \<Rightarrow> string \<Rightarrow> cw_ret_t"
  cw_gen_wait_for_queue_level :: "cw_gen_t \<Rightarrow> nat \<Rightarrow> cw_ret_t"
  cw_gen_stop :: "cw_gen_t \<Rightarrow> cw_ret_t"

subsection \<open>The observable effects\<close>

text \<open>
  The two debug objects are globals of the process (\<open>extern cw_debug_t cw_debug_object\<close>,
  \<open>cw_debug_object_dev\<close>). The state of the model holds them together with the log of
  everything the function does to the outside, in program order: the text it writes, each
  store into a debug object, and each library call with the value the library returned.
  \<open>perror\<close> is logged with its argument (the text it adds comes from \<open>errno\<close>), and
  \<open>cw_gen_delete(&cw_gen)\<close> with the handle \<open>cw_gen\<close> holds at the call.
\<close>

datatype debug_object = Cw_debug_object | Cw_debug_object_dev

datatype event =
    Printf string
  | Perror string
  | Fprintf_stderr string
  | Call_cw_debug_set_flags debug_object nat
  | Store_level debug_object int
  | Call_cw_gen_new cw_gen_config_t "cw_gen_t option"
  | Call_cw_gen_start cw_gen_t cw_ret_t
  | Call_cw_gen_enqueue_string cw_gen_t string cw_ret_t
  | Call_cw_gen_wait_for_queue_level cw_gen_t nat cw_ret_t
  | Call_cw_gen_stop cw_gen_t cw_ret_t
  | Call_cw_gen_delete cw_gen_t

record world =
  cw_debug_object :: cw_debug_t
  cw_debug_object_dev :: cw_debug_t
  trace :: "event list"

definition emit :: "event \<Rightarrow> world \<Rightarrow> world" where
  "emit e w = w\<lparr>trace := trace w @ [e]\<rparr>"

subsection \<open>The function\<close>

text \<open>
  \<open>strncpy(dst, src, n)\<close> copies at most \<open>n\<close> characters of \<open>src\<close>; the destination was
  zeroed by the \<open>memset\<close> before it, so the string it holds afterwards is the first \<open>n\<close>
  characters of \<open>src\<close>.
\<close>

definition strncpy :: "string \<Rightarrow> nat \<Rightarrow> string" where
  "strncpy src n = take n src"

text \<open>Lines 82 to 87: the configuration handed to \<open>cw_gen_new\<close>.\<close>

definition cw_gen_config :: "libcw \<Rightarrow> cw_gen_config_t" where
  "cw_gen_config L =
     \<lparr>sound_system = CW_AUDIO_NULL L,
      sound_device = strncpy (CW_DEFAULT_NULL_DEVICE L) (sizeof_sound_device L)\<rparr>"

text \<open>Lines 76 to 80: the debug log is switched on.\<close>

definition enable_debug_log :: "libcw \<Rightarrow> world \<Rightarrow> world" where
  "enable_debug_log L w0 =
     (let w1 = emit (Call_cw_debug_set_flags Cw_debug_object (CW_DEBUG_MASK L))
                 (w0\<lparr>cw_debug_object := cw_debug_set_flags L (cw_debug_object w0) (CW_DEBUG_MASK L)\<rparr>);
          w2 = emit (Store_level Cw_debug_object (CW_DEBUG_DEBUG L))
                 (w1\<lparr>cw_debug_object := (cw_debug_object w1)\<lparr>level := CW_DEBUG_DEBUG L\<rparr>\<rparr>);
          w3 = emit (Call_cw_debug_set_flags Cw_debug_object_dev (CW_DEBUG_MASK L))
                 (w2\<lparr>cw_debug_object_dev :=
                        cw_debug_set_flags L (cw_debug_object_dev w2) (CW_DEBUG_MASK L)\<rparr>);
          w4 = emit (Store_level Cw_debug_object_dev (CW_DEBUG_INFO L))
                 (w3\<lparr>cw_debug_object_dev := (cw_debug_object_dev w3)\<lparr>level := CW_DEBUG_INFO L\<rparr>\<rparr>)
      in w4)"

text \<open>
  The three labels of the unwind chain, each a function of the local variables live at the
  label (\<open>cw_gen\<close> and \<open>ret\<close>) and of the state; falling through a label is a call of the
  next one, and so is a \<open>goto\<close>.
\<close>

definition err0 :: "int \<Rightarrow> world \<Rightarrow> int \<times> world" where
  "err0 ret w = (ret, w)"

definition err1 :: "cw_gen_t \<Rightarrow> int \<Rightarrow> world \<Rightarrow> int \<times> world" where
  "err1 cw_gen ret w = err0 ret (emit (Call_cw_gen_delete cw_gen) w)"

definition err2 :: "libcw \<Rightarrow> cw_gen_t \<Rightarrow> int \<Rightarrow> world \<Rightarrow> int \<times> world" where
  "err2 L cw_gen ret w =
     (let cw_ret = cw_gen_stop L cw_gen;
          w1 = emit (Call_cw_gen_stop cw_gen cw_ret) w
      in if CW_SUCCESS L \<noteq> cw_ret
         then err1 cw_gen (CW_FAILURE L) (emit (Fprintf_stderr ''cw_gen_stop() failed.\<newline>'') w1)
         else err1 cw_gen ret w1)"

definition unixcw_libcw_demo_1 :: "libcw \<Rightarrow> string \<Rightarrow> world \<Rightarrow> int \<times> world" where
  "unixcw_libcw_demo_1 L msg w0 =
     (let ret = CW_SUCCESS L;
          w1 = emit (Printf ''unixcw_libcw_demo_1: starting.\<newline>'') w0;
          w2 = enable_debug_log L w1;
          cfg = cw_gen_config L;
          cw_gen = cw_gen_new L cfg;
          w3 = emit (Call_cw_gen_new cfg cw_gen) w2
      in case cw_gen of
           None \<Rightarrow> err0 (CW_FAILURE L) (emit (Perror ''cw_gen_new'') w3)
         | Some g \<Rightarrow>
            (let cw_ret = cw_gen_start L g;
                 w4 = emit (Call_cw_gen_start g cw_ret) w3
             in if CW_SUCCESS L \<noteq> cw_ret
                then err1 g (CW_FAILURE L) (emit (Perror ''cw_gen_start'') w4)
                else
                 (let cw_ret = cw_gen_enqueue_string L g msg;
                      w5 = emit (Call_cw_gen_enqueue_string g msg cw_ret) w4
                  in if CW_SUCCESS L \<noteq> cw_ret
                     then err2 L g (CW_FAILURE L) (emit (Perror ''cw_gen_enqueue_string'') w5)
                     else
                      (let cw_ret = cw_gen_wait_for_queue_level L g 0;
                           w6 = emit (Call_cw_gen_wait_for_queue_level g 0 cw_ret) w5
                       in if CW_SUCCESS L \<noteq> cw_ret
                          then err2 L g (CW_FAILURE L)
                                 (emit (Perror ''cw_gen_wait_for_queue_level'') w6)
                          else err2 L g ret w6))))"

subsection \<open>Reading a run\<close>

text \<open>What one invocation appends to the log.\<close>

definition emitted :: "libcw \<Rightarrow> string \<Rightarrow> world \<Rightarrow> event list" where
  "emitted L msg w = drop (length (trace w)) (trace (snd (unixcw_libcw_demo_1 L msg w)))"

datatype stage = Create | Start | Enqueue | Wait | Stop | Destroy

fun stage_of :: "event \<Rightarrow> stage option" where
  "stage_of (Call_cw_gen_new cfg r) = Some Create"
| "stage_of (Call_cw_gen_start g r) = Some Start"
| "stage_of (Call_cw_gen_enqueue_string g s r) = Some Enqueue"
| "stage_of (Call_cw_gen_wait_for_queue_level g n r) = Some Wait"
| "stage_of (Call_cw_gen_stop g r) = Some Stop"
| "stage_of (Call_cw_gen_delete g) = Some Destroy"
| "stage_of (Printf s) = None"
| "stage_of (Perror s) = None"
| "stage_of (Fprintf_stderr s) = None"
| "stage_of (Call_cw_debug_set_flags d f) = None"
| "stage_of (Store_level d l) = None"

text \<open>The generator calls of a log, and the stages they belong to, in order.\<close>

definition generator_calls :: "event list \<Rightarrow> event list" where
  "generator_calls es = filter (\<lambda>e. stage_of e \<noteq> None) es"

fun stages :: "event list \<Rightarrow> stage list" where
  "stages [] = []"
| "stages (e # es) = (case stage_of e of None \<Rightarrow> stages es | Some k \<Rightarrow> k # stages es)"

text \<open>
  A call failed when the function's own test of its result says so: \<open>NULL == cw_gen\<close> for
  the creation, \<open>CW_SUCCESS != cw_ret\<close> for the four others. \<open>cw_gen_delete\<close> returns nothing.
\<close>

fun failed :: "libcw \<Rightarrow> event \<Rightarrow> bool" where
  "failed L (Call_cw_gen_new cfg r) = (r = None)"
| "failed L (Call_cw_gen_start g r) = (CW_SUCCESS L \<noteq> r)"
| "failed L (Call_cw_gen_enqueue_string g s r) = (CW_SUCCESS L \<noteq> r)"
| "failed L (Call_cw_gen_wait_for_queue_level g n r) = (CW_SUCCESS L \<noteq> r)"
| "failed L (Call_cw_gen_stop g r) = (CW_SUCCESS L \<noteq> r)"
| "failed L (Call_cw_gen_delete g) = False"
| "failed L (Printf s) = False"
| "failed L (Perror s) = False"
| "failed L (Fprintf_stderr s) = False"
| "failed L (Call_cw_debug_set_flags d f) = False"
| "failed L (Store_level d l) = False"

definition first_failed :: "libcw \<Rightarrow> event list \<Rightarrow> stage option" where
  "first_failed L es = (case filter (failed L) es of [] \<Rightarrow> None | e # rest \<Rightarrow> stage_of e)"

text \<open>The diagnostics of a log (what went to standard error), in order.\<close>

fun is_diagnostic :: "event \<Rightarrow> bool" where
  "is_diagnostic (Perror s) = True"
| "is_diagnostic (Fprintf_stderr s) = True"
| "is_diagnostic (Printf s) = False"
| "is_diagnostic (Call_cw_debug_set_flags d f) = False"
| "is_diagnostic (Store_level d l) = False"
| "is_diagnostic (Call_cw_gen_new cfg r) = False"
| "is_diagnostic (Call_cw_gen_start g r) = False"
| "is_diagnostic (Call_cw_gen_enqueue_string g s r) = False"
| "is_diagnostic (Call_cw_gen_wait_for_queue_level g n r) = False"
| "is_diagnostic (Call_cw_gen_stop g r) = False"
| "is_diagnostic (Call_cw_gen_delete g) = False"

definition diagnostics :: "event list \<Rightarrow> event list" where
  "diagnostics es = filter is_diagnostic es"

text \<open>
  The diagnostic the function writes when the call of a stage fails; \<open>cw_gen_delete\<close> has
  no result to test and no diagnostic.
\<close>

fun diagnostic_of :: "stage \<Rightarrow> event option" where
  "diagnostic_of Create = Some (Perror ''cw_gen_new'')"
| "diagnostic_of Start = Some (Perror ''cw_gen_start'')"
| "diagnostic_of Enqueue = Some (Perror ''cw_gen_enqueue_string'')"
| "diagnostic_of Wait = Some (Perror ''cw_gen_wait_for_queue_level'')"
| "diagnostic_of Stop = Some (Fprintf_stderr ''cw_gen_stop() failed.\<newline>'')"
| "diagnostic_of Destroy = None"

subsection \<open>The log of a run, path by path\<close>

text \<open>The five events every invocation starts with.\<close>

definition prologue :: "libcw \<Rightarrow> event list" where
  "prologue L =
     [Printf ''unixcw_libcw_demo_1: starting.\<newline>'',
      Call_cw_debug_set_flags Cw_debug_object (CW_DEBUG_MASK L),
      Store_level Cw_debug_object (CW_DEBUG_DEBUG L),
      Call_cw_debug_set_flags Cw_debug_object_dev (CW_DEBUG_MASK L),
      Store_level Cw_debug_object_dev (CW_DEBUG_INFO L)]"

text \<open>
  The log of the shared tail, from the label \<open>err2\<close> to the return: the stop call, its
  diagnostic when it failed, and the deletion.
\<close>

definition unwind_tail :: "libcw \<Rightarrow> cw_gen_t \<Rightarrow> event list" where
  "unwind_tail L g =
     Call_cw_gen_stop g (cw_gen_stop L g) #
     (if CW_SUCCESS L \<noteq> cw_gen_stop L g
      then [Fprintf_stderr ''cw_gen_stop() failed.\<newline>''] else []) @
     [Call_cw_gen_delete g]"

subsection \<open>A stand-in library for evaluating runs\<close>

text \<open>
  A library that gives fixed answers: the handle (or \<open>NULL\<close>) of \<open>cw_gen_new\<close> and the
  results of start, enqueue, wait and stop, in this order. Its flag setter stores the flags
  in the object. The constants are chosen for the evaluation only.
\<close>

definition libcw_answering ::
  "cw_gen_t option \<Rightarrow> cw_ret_t \<Rightarrow> cw_ret_t \<Rightarrow> cw_ret_t \<Rightarrow> cw_ret_t \<Rightarrow> libcw" where
  "libcw_answering new start enqueue wait stop =
     \<lparr>CW_SUCCESS = 1, CW_FAILURE = 0, CW_DEBUG_MASK = 2097151, CW_DEBUG_DEBUG = 0,
      CW_DEBUG_INFO = 1, CW_AUDIO_NULL = 1, CW_DEFAULT_NULL_DEVICE = [],
      sizeof_sound_device = 128,
      cw_debug_set_flags = (\<lambda>d f. d\<lparr>flags := f\<rparr>),
      cw_gen_new = (\<lambda>cfg. new),
      cw_gen_start = (\<lambda>g. start),
      cw_gen_enqueue_string = (\<lambda>g s. enqueue),
      cw_gen_wait_for_queue_level = (\<lambda>g n. wait),
      cw_gen_stop = (\<lambda>g. stop)\<rparr>"

definition world0 :: world where
  "world0 = \<lparr>cw_debug_object = \<lparr>flags = 0, level = 4\<rparr>,
             cw_debug_object_dev = \<lparr>flags = 0, level = 4\<rparr>,
             trace = []\<rparr>"

section \<open>The callback demo: \<open>hello_world_c_2.c\<close>\<close>

text \<open>
  \<open>hello_world_c_2_fn\<close> calls three things it does not define: \<open>printf\<close>, the callback it
  is given, and \<open>hello_world_rust_2_fn\<close>, which lives on the Rust side. The environment
  record gives the value each of them returns. A function pointer is its address (what
  \<open>%p\<close> prints) together with the value a call of it returns for a message; the pointer is
  taken to be callable and the call to return, as the C function requires of its argument.
  An \<open>int32_t\<close> is a 32-bit word.
\<close>

type_synonym int32_t = "32 word"

datatype printf_arg = Arg_ptr nat | Arg_int int32_t | Arg_str string

record hello_world_c_2_cb =
  cb_addr :: nat
  cb_call :: "string \<Rightarrow> int32_t"

record hello_env =
  printf :: "string \<Rightarrow> printf_arg list \<Rightarrow> int32_t"
  hello_world_rust_2_fn :: "hello_world_c_2_cb \<Rightarrow> int32_t"
  hello_world_c_2_callback_addr :: nat

text \<open>What \<open>hello_world_c_2_fn\<close> itself does, in program order, each with the value returned.\<close>

datatype hello_event =
    Call_printf string "printf_arg list" int32_t
  | Call_callback nat string int32_t
  | Call_hello_world_rust_2_fn nat int32_t

text \<open>Lines 72 to 80: the static callback handed to the Rust side.\<close>

definition hello_world_c_2_callback :: "hello_env \<Rightarrow> hello_world_c_2_cb" where
  "hello_world_c_2_callback E =
     \<lparr>cb_addr = hello_world_c_2_callback_addr E,
      cb_call = (\<lambda>msg. let ret = printf E ''Hello world 2, printed in C, %s.\<newline>'' [Arg_str msg]
                       in ret)\<rparr>"

definition hello_world_c_2_fn ::
  "hello_env \<Rightarrow> hello_world_c_2_cb \<Rightarrow> int32_t \<times> hello_event list" where
  "hello_world_c_2_fn E callback =
     (let fmt0 = ''Hello world 2, printed in C, callback = %p.\<newline>'';
          ret = printf E fmt0 [Arg_ptr (cb_addr callback)];
          t1 = [Call_printf fmt0 [Arg_ptr (cb_addr callback)] ret];
          ret2 = cb_call callback ''from C'';
          t2 = t1 @ [Call_callback (cb_addr callback) ''from C'' ret2];
          fmt1 = ''hello_world_c_2_fn callback; ret2 = %d.\<newline>'';
          t3 = t2 @ [Call_printf fmt1 [Arg_int ret2] (printf E fmt1 [Arg_int ret2])];
          ret2 = hello_world_rust_2_fn E (hello_world_c_2_callback E);
          t4 = t3 @ [Call_hello_world_rust_2_fn (hello_world_c_2_callback_addr E) ret2];
          fmt2 = ''hello_world_rust_2_fn; ret2 = %d.\<newline>'';
          t5 = t4 @ [Call_printf fmt2 [Arg_int ret2] (printf E fmt2 [Arg_int ret2])]
      in (ret, t5))"

fun is_callback_call :: "hello_event \<Rightarrow> bool" where
  "is_callback_call (Call_callback a s r) = True"
| "is_callback_call (Call_printf f as r) = False"
| "is_callback_call (Call_hello_world_rust_2_fn a r) = False"

section \<open>Properties of \<open>unixcw_libcw_demo_1\<close>\<close>

subsection \<open>The result and the log of each path\<close>

lemma trace_emit: "trace (emit e w) = trace w @ [e]"
  by (simp add: emit_def)

lemma trace_enable_debug_log: "trace (enable_debug_log L w) = trace w @ tl (prologue L)"
  by (simp add: enable_debug_log_def Let_def emit_def prologue_def)

lemma err1_run: "err1 g ret w = (ret, w\<lparr>trace := trace w @ [Call_cw_gen_delete g]\<rparr>)"
  by (simp add: err1_def err0_def emit_def)

lemma err2_fst:
  "fst (err2 L g ret w) = (if CW_SUCCESS L \<noteq> cw_gen_stop L g then CW_FAILURE L else ret)"
  by (simp add: err2_def Let_def err1_run)

lemma err2_trace: "trace (snd (err2 L g ret w)) = trace w @ unwind_tail L g"
  by (simp add: err2_def Let_def err1_run emit_def unwind_tail_def)

lemmas run_simps =
  emitted_def unixcw_libcw_demo_1_def Let_def err0_def err1_run err2_fst err2_trace
  trace_emit trace_enable_debug_log prologue_def

lemma run_create_fails:
  assumes "cw_gen_new L (cw_gen_config L) = None"
  shows "fst (unixcw_libcw_demo_1 L msg w) = CW_FAILURE L"
    and "emitted L msg w =
           prologue L @ [Call_cw_gen_new (cw_gen_config L) None, Perror ''cw_gen_new'']"
  using assms by (simp_all add: run_simps)

lemma run_start_fails:
  assumes "cw_gen_new L (cw_gen_config L) = Some g"
    and "cw_gen_start L g \<noteq> CW_SUCCESS L"
  shows "fst (unixcw_libcw_demo_1 L msg w) = CW_FAILURE L"
    and "emitted L msg w =
           prologue L @
           [Call_cw_gen_new (cw_gen_config L) (Some g),
            Call_cw_gen_start g (cw_gen_start L g),
            Perror ''cw_gen_start'',
            Call_cw_gen_delete g]"
  using assms by (simp_all add: run_simps)

lemma run_enqueue_fails:
  assumes "cw_gen_new L (cw_gen_config L) = Some g"
    and "cw_gen_start L g = CW_SUCCESS L"
    and "cw_gen_enqueue_string L g msg \<noteq> CW_SUCCESS L"
  shows "fst (unixcw_libcw_demo_1 L msg w) = CW_FAILURE L"
    and "emitted L msg w =
           prologue L @
           [Call_cw_gen_new (cw_gen_config L) (Some g),
            Call_cw_gen_start g (CW_SUCCESS L),
            Call_cw_gen_enqueue_string g msg (cw_gen_enqueue_string L g msg),
            Perror ''cw_gen_enqueue_string''] @
           unwind_tail L g"
  using assms by (simp_all add: run_simps)

lemma run_wait_fails:
  assumes "cw_gen_new L (cw_gen_config L) = Some g"
    and "cw_gen_start L g = CW_SUCCESS L"
    and "cw_gen_enqueue_string L g msg = CW_SUCCESS L"
    and "cw_gen_wait_for_queue_level L g 0 \<noteq> CW_SUCCESS L"
  shows "fst (unixcw_libcw_demo_1 L msg w) = CW_FAILURE L"
    and "emitted L msg w =
           prologue L @
           [Call_cw_gen_new (cw_gen_config L) (Some g),
            Call_cw_gen_start g (CW_SUCCESS L),
            Call_cw_gen_enqueue_string g msg (CW_SUCCESS L),
            Call_cw_gen_wait_for_queue_level g 0 (cw_gen_wait_for_queue_level L g 0),
            Perror ''cw_gen_wait_for_queue_level''] @
           unwind_tail L g"
  using assms by (simp_all add: run_simps)

lemma run_drained:
  assumes "cw_gen_new L (cw_gen_config L) = Some g"
    and "cw_gen_start L g = CW_SUCCESS L"
    and "cw_gen_enqueue_string L g msg = CW_SUCCESS L"
    and "cw_gen_wait_for_queue_level L g 0 = CW_SUCCESS L"
  shows "fst (unixcw_libcw_demo_1 L msg w) =
           (if CW_SUCCESS L \<noteq> cw_gen_stop L g then CW_FAILURE L else CW_SUCCESS L)"
    and "emitted L msg w =
           prologue L @
           [Call_cw_gen_new (cw_gen_config L) (Some g),
            Call_cw_gen_start g (CW_SUCCESS L),
            Call_cw_gen_enqueue_string g msg (CW_SUCCESS L),
            Call_cw_gen_wait_for_queue_level g 0 (CW_SUCCESS L)] @
           unwind_tail L g"
  using assms by (simp_all add: run_simps)

text \<open>Every run takes one of the five paths.\<close>

lemma outcome_cases [case_names create_fails start_fails enqueue_fails wait_fails drained]:
  obtains "cw_gen_new L (cw_gen_config L) = None"
  | g where "cw_gen_new L (cw_gen_config L) = Some g"
      and "cw_gen_start L g \<noteq> CW_SUCCESS L"
  | g where "cw_gen_new L (cw_gen_config L) = Some g"
      and "cw_gen_start L g = CW_SUCCESS L"
      and "cw_gen_enqueue_string L g msg \<noteq> CW_SUCCESS L"
  | g where "cw_gen_new L (cw_gen_config L) = Some g"
      and "cw_gen_start L g = CW_SUCCESS L"
      and "cw_gen_enqueue_string L g msg = CW_SUCCESS L"
      and "cw_gen_wait_for_queue_level L g 0 \<noteq> CW_SUCCESS L"
  | g where "cw_gen_new L (cw_gen_config L) = Some g"
      and "cw_gen_start L g = CW_SUCCESS L"
      and "cw_gen_enqueue_string L g msg = CW_SUCCESS L"
      and "cw_gen_wait_for_queue_level L g 0 = CW_SUCCESS L"
  by (cases "cw_gen_new L (cw_gen_config L)") blast+

lemmas log_simps = prologue_def unwind_tail_def generator_calls_def diagnostics_def first_failed_def

lemma trace_run: "trace (snd (unixcw_libcw_demo_1 L msg w)) = trace w @ emitted L msg w"
  by (simp add: emitted_def unixcw_libcw_demo_1_def Let_def err0_def err1_run err2_trace
      trace_emit trace_enable_debug_log split: option.split)

lemma emitted_starts:
  "\<exists>rest. emitted L msg w =
     prologue L @ Call_cw_gen_new (cw_gen_config L) (cw_gen_new L (cw_gen_config L)) # rest"
proof (cases rule: outcome_cases [where L = L and msg = msg])
  case create_fails
  then show ?thesis by (simp add: run_create_fails(2))
next
  case (start_fails g)
  then show ?thesis by (simp add: run_start_fails(2))
next
  case (enqueue_fails g)
  then show ?thesis by (simp add: run_enqueue_fails(2))
next
  case (wait_fails g)
  then show ?thesis by (simp add: run_wait_fails(2))
next
  case (drained g)
  then show ?thesis by (simp add: run_drained(2))
qed

subsection \<open>The debug objects\<close>

lemma debug_objects_enable_debug_log:
  "cw_debug_object (enable_debug_log L w) =
     (cw_debug_set_flags L (cw_debug_object w) (CW_DEBUG_MASK L))\<lparr>level := CW_DEBUG_DEBUG L\<rparr>"
  "cw_debug_object_dev (enable_debug_log L w) =
     (cw_debug_set_flags L (cw_debug_object_dev w) (CW_DEBUG_MASK L))\<lparr>level := CW_DEBUG_INFO L\<rparr>"
  by (simp_all add: enable_debug_log_def Let_def emit_def)

lemma debug_objects_emit:
  "cw_debug_object (emit e w) = cw_debug_object w"
  "cw_debug_object_dev (emit e w) = cw_debug_object_dev w"
  by (simp_all add: emit_def)

lemma debug_objects_err1:
  "cw_debug_object (snd (err1 g ret w)) = cw_debug_object w"
  "cw_debug_object_dev (snd (err1 g ret w)) = cw_debug_object_dev w"
  by (simp_all add: err1_run)

lemma debug_objects_err2:
  "cw_debug_object (snd (err2 L g ret w)) = cw_debug_object w"
  "cw_debug_object_dev (snd (err2 L g ret w)) = cw_debug_object_dev w"
  by (simp_all add: err2_def Let_def err1_run emit_def)

lemma debug_objects_run:
  "cw_debug_object (snd (unixcw_libcw_demo_1 L msg w)) =
     (cw_debug_set_flags L (cw_debug_object w) (CW_DEBUG_MASK L))\<lparr>level := CW_DEBUG_DEBUG L\<rparr>"
  "cw_debug_object_dev (snd (unixcw_libcw_demo_1 L msg w)) =
     (cw_debug_set_flags L (cw_debug_object_dev w) (CW_DEBUG_MASK L))\<lparr>level := CW_DEBUG_INFO L\<rparr>"
  by (simp_all add: unixcw_libcw_demo_1_def Let_def err0_def debug_objects_err1 debug_objects_err2
      debug_objects_emit debug_objects_enable_debug_log split: option.split)

lemmas eval_simps = libcw_answering_def world0_def cw_gen_config_def strncpy_def

subsection \<open>Release of the generator\<close>

text \<open>
  C1. Whatever the five calls answer, the log of one invocation holds exactly one
  \<open>cw_gen_delete\<close>, of the handle \<open>cw_gen_new\<close> returned, when \<open>cw_gen_new\<close> returned a
  handle, and no \<open>cw_gen_delete\<close> at all when it returned \<open>NULL\<close>: the handle is neither
  leaked nor released twice.
\<close>

theorem delete_once_iff_created:
  "filter (\<lambda>e. stage_of e = Some Destroy) (emitted L msg w) =
     (case cw_gen_new L (cw_gen_config L) of None \<Rightarrow> [] | Some g \<Rightarrow> [Call_cw_gen_delete g])"
proof (cases rule: outcome_cases [where L = L and msg = msg])
  case create_fails
  then show ?thesis by (simp add: run_create_fails(2) log_simps)
next
  case (start_fails g)
  then show ?thesis by (simp add: run_start_fails(2) log_simps)
next
  case (enqueue_fails g)
  then show ?thesis by (simp add: run_enqueue_fails(2) log_simps)
next
  case (wait_fails g)
  then show ?thesis by (simp add: run_wait_fails(2) log_simps)
next
  case (drained g)
  then show ?thesis by (simp add: run_drained(2) log_simps)
qed

text \<open>
  C2. \<open>cw_gen_stop\<close> is called in an invocation if and only if \<open>cw_gen_start\<close> was called
  in it and returned \<open>CW_SUCCESS\<close>.
\<close>

theorem stop_iff_start_succeeded:
  "(\<exists>g r. Call_cw_gen_stop g r \<in> set (emitted L msg w)) \<longleftrightarrow>
   (\<exists>g. Call_cw_gen_start g (CW_SUCCESS L) \<in> set (emitted L msg w))"
proof (cases rule: outcome_cases [where L = L and msg = msg])
  case create_fails
  then show ?thesis by (auto simp add: run_create_fails(2) log_simps)
next
  case (start_fails g)
  then show ?thesis by (auto simp add: run_start_fails(2) log_simps)
next
  case (enqueue_fails g)
  then show ?thesis by (auto simp add: run_enqueue_fails(2) log_simps)
next
  case (wait_fails g)
  then show ?thesis by (auto simp add: run_wait_fails(2) log_simps)
next
  case (drained g)
  then show ?thesis by (auto simp add: run_drained(2) log_simps)
qed

subsection \<open>The result\<close>

text \<open>
  C3, as the code has it. The result is an \<open>enum cw_return_values\<close>: when some call of the
  invocation fails, with \<open>k\<close> the stage of the first one, the function returns
  \<open>CW_FAILURE\<close>, whatever \<open>k\<close> is and whatever \<open>cw_gen_stop\<close> answers afterwards; the stage
  is named by the first diagnostic written, which is the diagnostic of \<open>k\<close>.
\<close>

theorem first_failure_reported:
  assumes "first_failed L (emitted L msg w) = Some k"
  shows "fst (unixcw_libcw_demo_1 L msg w) = CW_FAILURE L \<and>
         map Some (take 1 (diagnostics (emitted L msg w))) = [diagnostic_of k]"
proof (cases rule: outcome_cases [where L = L and msg = msg])
  case create_fails
  then show ?thesis using assms by (auto simp add: run_create_fails log_simps split: if_splits)
next
  case (start_fails g)
  then show ?thesis using assms by (auto simp add: run_start_fails log_simps split: if_splits)
next
  case (enqueue_fails g)
  then show ?thesis using assms by (auto simp add: run_enqueue_fails log_simps split: if_splits)
next
  case (wait_fails g)
  then show ?thesis using assms by (auto simp add: run_wait_fails log_simps split: if_splits)
next
  case (drained g)
  then show ?thesis using assms by (auto simp add: run_drained log_simps split: if_splits)
qed

text \<open>
  One such run: the enqueue fails and then the stop fails as well; the result
  is \<open>CW_FAILURE\<close> (0 in the stand-in library) and the first diagnostic is the one of
  the enqueue.
\<close>

theorem first_failure_reported_witness:
  "first_failed (libcw_answering (Some 7) 1 0 1 0)
     (emitted (libcw_answering (Some 7) 1 0 1 0) ''sos'' world0) = Some Enqueue \<and>
   fst (unixcw_libcw_demo_1 (libcw_answering (Some 7) 1 0 1 0) ''sos'' world0) = 0 \<and>
   take 1 (diagnostics (emitted (libcw_answering (Some 7) 1 0 1 0) ''sos'' world0)) =
     [Perror ''cw_gen_enqueue_string'']"
proof -
  have h: "first_failed (libcw_answering (Some 7) 1 0 1 0)
     (emitted (libcw_answering (Some 7) 1 0 1 0) ''sos'' world0) = Some Enqueue"
    by (simp add: run_simps eval_simps log_simps)
  show ?thesis
    using h first_failure_reported [OF h]
    by (auto simp add: libcw_answering_def map_eq_Cons_conv)
qed

text \<open>
  C3 as stated fails: the returned value does not identify the first failing stage. A run
  whose first failure is the enqueue (stop failing after it) and a run whose first failure
  is the wait return the same value.
\<close>

theorem result_does_not_tell_enqueue_from_wait:
  "first_failed (libcw_answering (Some 7) 1 0 1 0)
     (emitted (libcw_answering (Some 7) 1 0 1 0) ''sos'' world0) = Some Enqueue \<and>
   first_failed (libcw_answering (Some 7) 1 1 0 1)
     (emitted (libcw_answering (Some 7) 1 1 0 1) ''sos'' world0) = Some Wait \<and>
   fst (unixcw_libcw_demo_1 (libcw_answering (Some 7) 1 0 1 0) ''sos'' world0) =
   fst (unixcw_libcw_demo_1 (libcw_answering (Some 7) 1 1 0 1) ''sos'' world0)"
  by (simp add: run_simps eval_simps log_simps)

text \<open>
  C4, as the code has it. With \<open>CW_SUCCESS\<close> and \<open>CW_FAILURE\<close> distinct, the function
  returns \<open>CW_FAILURE\<close> exactly when some call of the invocation failed and \<open>CW_SUCCESS\<close>
  exactly when none did: one failure value for the five calls. Which call failed is told
  by the diagnostics alone: the diagnostic of a stage is written exactly when the call of
  that stage failed.
\<close>

theorem single_failure_value:
  assumes "CW_SUCCESS L \<noteq> CW_FAILURE L"
  shows "(fst (unixcw_libcw_demo_1 L msg w) = CW_FAILURE L \<longleftrightarrow>
            (\<exists>e \<in> set (emitted L msg w). failed L e)) \<and>
         (fst (unixcw_libcw_demo_1 L msg w) = CW_SUCCESS L \<longleftrightarrow>
            \<not> (\<exists>e \<in> set (emitted L msg w). failed L e)) \<and>
         ((\<exists>d. diagnostic_of k = Some d \<and> d \<in> set (diagnostics (emitted L msg w))) \<longleftrightarrow>
            (\<exists>e \<in> set (emitted L msg w). failed L e \<and> stage_of e = Some k))"
proof (cases rule: outcome_cases [where L = L and msg = msg])
  case create_fails
  then show ?thesis using assms by (cases k) (auto simp add: run_create_fails log_simps)
next
  case (start_fails g)
  then show ?thesis using assms by (cases k) (auto simp add: run_start_fails log_simps)
next
  case (enqueue_fails g)
  then show ?thesis using assms by (cases k) (auto simp add: run_enqueue_fails log_simps)
next
  case (wait_fails g)
  then show ?thesis using assms by (cases k) (auto simp add: run_wait_fails log_simps)
next
  case (drained g)
  then show ?thesis using assms by (cases k) (auto simp add: run_drained log_simps)
qed

text \<open>One such run: the wait fails, and the stop after it succeeds.\<close>

theorem single_failure_value_witness:
  "fst (unixcw_libcw_demo_1 (libcw_answering (Some 7) 1 1 0 1) ''sos'' world0) = 0 \<and>
   Perror ''cw_gen_wait_for_queue_level''
     \<in> set (diagnostics (emitted (libcw_answering (Some 7) 1 1 0 1) ''sos'' world0))"
proof -
  have h: "CW_SUCCESS (libcw_answering (Some 7) 1 1 0 1) \<noteq>
           CW_FAILURE (libcw_answering (Some 7) 1 1 0 1)"
    by (simp add: libcw_answering_def)
  have f: "\<exists>e \<in> set (emitted (libcw_answering (Some 7) 1 1 0 1) ''sos'' world0).
             failed (libcw_answering (Some 7) 1 1 0 1) e \<and> stage_of e = Some Wait"
    by (simp add: run_simps eval_simps)
  show ?thesis
    using f single_failure_value [OF h, of "''sos''" world0 Wait]
    by (auto simp add: libcw_answering_def)
qed

text \<open>
  C4 as stated fails: there are not five failure values. The run in which the creation
  fails and the run in which only the stop fails report different stages and return the
  same value.
\<close>

theorem create_and_stop_failure_same_value:
  "first_failed (libcw_answering None 1 1 1 1)
     (emitted (libcw_answering None 1 1 1 1) ''sos'' world0) = Some Create \<and>
   first_failed (libcw_answering (Some 7) 1 1 1 0)
     (emitted (libcw_answering (Some 7) 1 1 1 0) ''sos'' world0) = Some Stop \<and>
   fst (unixcw_libcw_demo_1 (libcw_answering None 1 1 1 1) ''sos'' world0) = 0 \<and>
   fst (unixcw_libcw_demo_1 (libcw_answering (Some 7) 1 1 1 0) ''sos'' world0) = 0"
  by (simp add: run_simps eval_simps log_simps)

subsection \<open>Scenarios\<close>

text \<open>
  C5. When the five calls succeed, the function returns \<open>CW_SUCCESS\<close> and its generator
  calls are one create, one start, one enqueue, one wait, one stop and one destroy, in
  this order, all on the handle created.
\<close>

theorem all_succeed:
  assumes "cw_gen_new L (cw_gen_config L) = Some g"
    and "cw_gen_start L g = CW_SUCCESS L"
    and "cw_gen_enqueue_string L g msg = CW_SUCCESS L"
    and "cw_gen_wait_for_queue_level L g 0 = CW_SUCCESS L"
    and "cw_gen_stop L g = CW_SUCCESS L"
  shows "fst (unixcw_libcw_demo_1 L msg w) = CW_SUCCESS L \<and>
         generator_calls (emitted L msg w) =
           [Call_cw_gen_new (cw_gen_config L) (Some g),
            Call_cw_gen_start g (CW_SUCCESS L),
            Call_cw_gen_enqueue_string g msg (CW_SUCCESS L),
            Call_cw_gen_wait_for_queue_level g 0 (CW_SUCCESS L),
            Call_cw_gen_stop g (CW_SUCCESS L),
            Call_cw_gen_delete g] \<and>
         stages (emitted L msg w) = [Create, Start, Enqueue, Wait, Stop, Destroy]"
  using assms by (simp add: run_drained log_simps)

theorem all_succeed_witness:
  "fst (unixcw_libcw_demo_1 (libcw_answering (Some 7) 1 1 1 1) ''sos'' world0) = 1 \<and>
   stages (emitted (libcw_answering (Some 7) 1 1 1 1) ''sos'' world0) =
     [Create, Start, Enqueue, Wait, Stop, Destroy]"
  using all_succeed [of "libcw_answering (Some 7) 1 1 1 1" 7 "''sos''" world0]
  by (simp add: libcw_answering_def)

text \<open>
  C6. When \<open>cw_gen_new\<close> returns \<open>NULL\<close>, the function returns the failure recorded at the
  creation (\<open>CW_FAILURE\<close>, with the diagnostic of \<open>cw_gen_new\<close> and no other), and its only
  generator call is the creation: no start, no stop, no destroy.
\<close>

theorem create_fails_nothing_else:
  assumes "cw_gen_new L (cw_gen_config L) = None"
  shows "fst (unixcw_libcw_demo_1 L msg w) = CW_FAILURE L \<and>
         generator_calls (emitted L msg w) = [Call_cw_gen_new (cw_gen_config L) None] \<and>
         diagnostics (emitted L msg w) = [Perror ''cw_gen_new'']"
  using assms by (simp add: run_create_fails log_simps)

theorem create_fails_nothing_else_witness:
  "fst (unixcw_libcw_demo_1 (libcw_answering None 1 1 1 1) ''sos'' world0) = 0 \<and>
   generator_calls (emitted (libcw_answering None 1 1 1 1) ''sos'' world0) =
     [Call_cw_gen_new \<lparr>sound_system = 1, sound_device = []\<rparr> None]"
  using create_fails_nothing_else [of "libcw_answering None 1 1 1 1" "''sos''" world0]
  by (simp add: eval_simps)

text \<open>
  C7. When create, start, enqueue and wait succeed and \<open>cw_gen_stop\<close> fails, the function
  returns the failure recorded at the stop (\<open>CW_FAILURE\<close>, with the diagnostic of the stop
  and no other), and \<open>cw_gen_delete\<close> is still called, once, after the stop.
\<close>

theorem stop_fails_still_deleted:
  assumes "cw_gen_new L (cw_gen_config L) = Some g"
    and "cw_gen_start L g = CW_SUCCESS L"
    and "cw_gen_enqueue_string L g msg = CW_SUCCESS L"
    and "cw_gen_wait_for_queue_level L g 0 = CW_SUCCESS L"
    and "cw_gen_stop L g \<noteq> CW_SUCCESS L"
  shows "fst (unixcw_libcw_demo_1 L msg w) = CW_FAILURE L \<and>
         generator_calls (emitted L msg w) =
           [Call_cw_gen_new (cw_gen_config L) (Some g),
            Call_cw_gen_start g (CW_SUCCESS L),
            Call_cw_gen_enqueue_string g msg (CW_SUCCESS L),
            Call_cw_gen_wait_for_queue_level g 0 (CW_SUCCESS L),
            Call_cw_gen_stop g (cw_gen_stop L g),
            Call_cw_gen_delete g] \<and>
         diagnostics (emitted L msg w) = [Fprintf_stderr ''cw_gen_stop() failed.\<newline>'']"
  using assms by (auto simp add: run_drained log_simps)

theorem stop_fails_still_deleted_witness:
  "fst (unixcw_libcw_demo_1 (libcw_answering (Some 7) 1 1 1 0) ''sos'' world0) = 0 \<and>
   generator_calls (emitted (libcw_answering (Some 7) 1 1 1 0) ''sos'' world0) =
     [Call_cw_gen_new \<lparr>sound_system = 1, sound_device = []\<rparr> (Some 7),
      Call_cw_gen_start 7 1,
      Call_cw_gen_enqueue_string 7 ''sos'' 1,
      Call_cw_gen_wait_for_queue_level 7 0 1,
      Call_cw_gen_stop 7 0,
      Call_cw_gen_delete 7] \<and>
   diagnostics (emitted (libcw_answering (Some 7) 1 1 1 0) ''sos'' world0) =
     [Fprintf_stderr ''cw_gen_stop() failed.\<newline>'']"
  using stop_fails_still_deleted [of "libcw_answering (Some 7) 1 1 1 0" 7 "''sos''" world0]
  by (simp add: eval_simps)

subsection \<open>No retries\<close>

text \<open>
  C8, as the code has it. In every invocation the creation is attempted exactly once, and
  start, enqueue, wait and stop are each attempted at most once: no call is retried. A
  call that an earlier failure jumps over is not attempted at all: the start is attempted
  (once) exactly when the creation gave a handle, the enqueue and the stop exactly when
  the start also succeeded, and the wait exactly when the enqueue also succeeded.
\<close>

theorem no_call_repeated:
  "count_list (stages (emitted L msg w)) Create = 1 \<and>
   count_list (stages (emitted L msg w)) Start \<le> 1 \<and>
   count_list (stages (emitted L msg w)) Enqueue \<le> 1 \<and>
   count_list (stages (emitted L msg w)) Wait \<le> 1 \<and>
   count_list (stages (emitted L msg w)) Stop \<le> 1 \<and>
   count_list (stages (emitted L msg w)) Start =
     (case cw_gen_new L (cw_gen_config L) of None \<Rightarrow> 0 | Some g \<Rightarrow> 1) \<and>
   count_list (stages (emitted L msg w)) Enqueue =
     (case cw_gen_new L (cw_gen_config L) of
        None \<Rightarrow> 0
      | Some g \<Rightarrow> if cw_gen_start L g = CW_SUCCESS L then 1 else 0) \<and>
   count_list (stages (emitted L msg w)) Wait =
     (case cw_gen_new L (cw_gen_config L) of
        None \<Rightarrow> 0
      | Some g \<Rightarrow>
          if cw_gen_start L g = CW_SUCCESS L \<and> cw_gen_enqueue_string L g msg = CW_SUCCESS L
          then 1 else 0) \<and>
   count_list (stages (emitted L msg w)) Stop =
     (case cw_gen_new L (cw_gen_config L) of
        None \<Rightarrow> 0
      | Some g \<Rightarrow> if cw_gen_start L g = CW_SUCCESS L then 1 else 0)"
proof (cases rule: outcome_cases [where L = L and msg = msg])
  case create_fails
  then show ?thesis by (simp add: run_create_fails(2) log_simps)
next
  case (start_fails g)
  then show ?thesis by (simp add: run_start_fails(2) log_simps)
next
  case (enqueue_fails g)
  then show ?thesis by (simp add: run_enqueue_fails(2) log_simps)
next
  case (wait_fails g)
  then show ?thesis by (simp add: run_wait_fails(2) log_simps)
next
  case (drained g)
  then show ?thesis by (simp add: run_drained(2) log_simps)
qed

text \<open>
  One such run: the enqueue fails. The wait is jumped over and not attempted; the stop,
  which the start's success owes, is attempted once.
\<close>

theorem no_call_repeated_witness:
  "count_list (stages (emitted (libcw_answering (Some 7) 1 0 1 1) ''sos'' world0)) Enqueue = 1 \<and>
   count_list (stages (emitted (libcw_answering (Some 7) 1 0 1 1) ''sos'' world0)) Wait = 0 \<and>
   count_list (stages (emitted (libcw_answering (Some 7) 1 0 1 1) ''sos'' world0)) Stop = 1"
  using no_call_repeated [of "libcw_answering (Some 7) 1 0 1 1" "''sos''" world0]
  by (simp add: eval_simps)

text \<open>
  C8 as stated fails: when the creation fails, the start is attempted zero times, not once.
\<close>

theorem start_not_attempted_when_create_fails:
  "count_list (stages (emitted (libcw_answering None 1 1 1 1) ''sos'' world0)) Create = 1 \<and>
   count_list (stages (emitted (libcw_answering None 1 1 1 1) ''sos'' world0)) Start = 0"
  by (simp add: run_simps eval_simps log_simps)

subsection \<open>The debug configuration\<close>

text \<open>
  C10. From any state \<open>w\<close> (the state an earlier invocation left, for one), and whatever
  the generator calls answer, an invocation passes both debug objects through
  \<open>cw_debug_set_flags\<close> with \<open>CW_DEBUG_MASK\<close> and stores their levels, \<open>CW_DEBUG_DEBUG\<close> and
  \<open>CW_DEBUG_INFO\<close>; the objects hold these values when the function returns. In the log,
  what precedes the first generator call is the greeting followed by these four effects,
  and a generator call does follow.
\<close>

theorem debug_configuration_set_first:
  "cw_debug_object (snd (unixcw_libcw_demo_1 L msg w)) =
     (cw_debug_set_flags L (cw_debug_object w) (CW_DEBUG_MASK L))\<lparr>level := CW_DEBUG_DEBUG L\<rparr> \<and>
   cw_debug_object_dev (snd (unixcw_libcw_demo_1 L msg w)) =
     (cw_debug_set_flags L (cw_debug_object_dev w) (CW_DEBUG_MASK L))\<lparr>level := CW_DEBUG_INFO L\<rparr> \<and>
   takeWhile (\<lambda>e. stage_of e = None) (emitted L msg w) = prologue L \<and>
   generator_calls (emitted L msg w) \<noteq> []"
proof -
  obtain rest where e: "emitted L msg w =
     prologue L @ Call_cw_gen_new (cw_gen_config L) (cw_gen_new L (cw_gen_config L)) # rest"
    using emitted_starts by blast
  show ?thesis
    by (simp add: debug_objects_run e generator_calls_def) (simp add: prologue_def)
qed

text \<open>
  Two invocations in a row with the stand-in library, the creation failing in both: the
  second one starts from the state the first one left and sets the configuration again.
\<close>

theorem debug_configuration_set_first_witness:
  "cw_debug_object
     (snd (unixcw_libcw_demo_1 (libcw_answering None 1 1 1 1) ''sos''
        (snd (unixcw_libcw_demo_1 (libcw_answering None 1 1 1 1) ''sos'' world0)))) =
     \<lparr>flags = 2097151, level = 0\<rparr> \<and>
   cw_debug_object_dev
     (snd (unixcw_libcw_demo_1 (libcw_answering None 1 1 1 1) ''sos''
        (snd (unixcw_libcw_demo_1 (libcw_answering None 1 1 1 1) ''sos'' world0)))) =
     \<lparr>flags = 2097151, level = 1\<rparr> \<and>
   takeWhile (\<lambda>e. stage_of e = None)
     (emitted (libcw_answering None 1 1 1 1) ''sos''
        (snd (unixcw_libcw_demo_1 (libcw_answering None 1 1 1 1) ''sos'' world0))) =
     prologue (libcw_answering None 1 1 1 1)"
  using debug_configuration_set_first [of "libcw_answering None 1 1 1 1" "''sos''"
      "snd (unixcw_libcw_demo_1 (libcw_answering None 1 1 1 1) ''sos'' world0)"]
  by (simp add: libcw_answering_def)

section \<open>Properties of \<open>hello_world_c_2_fn\<close>\<close>

text \<open>
  C9. For every callback, the function returns what its first \<open>printf\<close> (the greeting,
  with the callback's address) returned. Replacing what the callback and what
  \<open>hello_world_rust_2_fn\<close> return leaves the result as it is. The callback is called
  once, with \<open>"from C"\<close>, and the two values are each printed with \<open>%d\<close>.
\<close>

theorem hello_world_c_2_fn_result:
  "fst (hello_world_c_2_fn E callback) =
     printf E ''Hello world 2, printed in C, callback = %p.\<newline>'' [Arg_ptr (cb_addr callback)] \<and>
   fst (hello_world_c_2_fn (E\<lparr>hello_world_rust_2_fn := rust\<rparr>) (callback\<lparr>cb_call := f\<rparr>)) =
     fst (hello_world_c_2_fn E callback) \<and>
   filter is_callback_call (snd (hello_world_c_2_fn E callback)) =
     [Call_callback (cb_addr callback) ''from C'' (cb_call callback ''from C'')] \<and>
   (\<exists>r. Call_printf ''hello_world_c_2_fn callback; ret2 = %d.\<newline>''
           [Arg_int (cb_call callback ''from C'')] r \<in> set (snd (hello_world_c_2_fn E callback))) \<and>
   (\<exists>r. Call_printf ''hello_world_rust_2_fn; ret2 = %d.\<newline>''
           [Arg_int (hello_world_rust_2_fn E (hello_world_c_2_callback E))] r
         \<in> set (snd (hello_world_c_2_fn E callback)))"
  by (simp add: hello_world_c_2_fn_def Let_def)

end
